theory Spec2Isabelle
  imports Main "HOL-Library.Sublist" "HOL-Library.Multiset"
begin

section \<open>Data model (app.py, lines 20-49)\<close>

text \<open>
  A calendar date, as \<open>datetime.date\<close> holds it. Python writes a date into a string
  in ISO form (\<open>YYYY-MM-DD\<close>); \<open>isoformat\<close> below does the same for the dates that
  \<open>datetime.date\<close> admits (year at most 9999).
\<close>

datatype date = Date (year: nat) (month: nat) (day: nat)

primrec zero_padded :: "nat \<Rightarrow> nat \<Rightarrow> string" where
  "zero_padded 0 n = []"
| "zero_padded (Suc w) n = zero_padded w (n div 10) @ [''0123456789'' ! (n mod 10)]"

definition isoformat :: "date \<Rightarrow> string" where
  "isoformat d = zero_padded 4 (year d) @ ''-'' @ zero_padded 2 (month d) @ ''-'' @ zero_padded 2 (day d)"

text \<open>
  \<open>class TodoItem(SQLModel, table=True)\<close>: one row of the table \<open>todoitem\<close>. The
  field \<open>id\<close> is called \<open>todo_id\<close> here (\<open>id\<close> is the identity function of HOL). The
  class gives \<open>id\<close> the default \<open>None\<close>; that value exists only between
  \<open>model_validate\<close> and \<open>commit\<close> inside \<open>create_todo_db\<close>, and every row read
  back from the table carries its primary key, so a row has an \<open>int\<close>.
\<close>

record TodoItem =
  todo_id :: int
  title :: string
  description :: "string option"
  completed :: bool
  priority :: "string option"
  due_date :: "date option"

text \<open>\<open>class TodoItemCreate(BaseModel)\<close>: the fields are prefixed with \<open>new_\<close>.\<close>

record TodoItemCreate =
  new_title :: string
  new_description :: "string option"
  new_priority :: "string option"
  new_due_date :: "date option"

text \<open>
  \<open>class TodoItemUpdate(BaseModel)\<close>: every field is \<open>Optional\<close> with default
  \<open>None\<close>, and pydantic remembers which fields the caller passed:
  \<open>model_dump(exclude_unset=True)\<close> keeps exactly those. So a field of the request is
  either \<open>Unset\<close> or \<open>Given v\<close>, where \<open>v\<close> may itself be \<open>None\<close>. The fields are
  prefixed with \<open>upd_\<close>.
\<close>

datatype 'a supplied = Unset | Given 'a

record TodoItemUpdate =
  upd_title :: "string option supplied"
  upd_description :: "string option supplied"
  upd_completed :: "bool option supplied"
  upd_priority :: "string option supplied"
  upd_due_date :: "date option supplied"

text \<open>
  The exceptions that the store operations can raise on well-typed requests:
  \<open>ValidationError\<close> from \<open>TodoItem.model_validate\<close> (the field \<open>priority\<close> is
  declared with \<open>max_length=50\<close>), \<open>IntegrityError\<close> from \<open>session.commit\<close>
  (\<open>title: str\<close> and \<open>completed: bool\<close> are columns declared NOT NULL), and
  \<open>OverflowError\<close> from \<open>session.get\<close> (\<open>todo_id: int\<close> is an unbounded Python
  integer, and the key column holds signed 64-bit integers).
\<close>

datatype error = ValidationError | IntegrityError | OverflowError

section \<open>The item store (app.py, lines 94-130)\<close>

text \<open>
  The table is the list of its rows in the order a table scan returns them. Each
  operation opens its own session, commits once and closes it, so an operation is a
  function from the table to the new table and the value returned; an operation that
  raises leaves the table as it was (the session is rolled back when it is closed).
\<close>

type_synonym db = "TodoItem list"

definition get_all_todos_db :: "db \<Rightarrow> TodoItem list" where
  "get_all_todos_db db = db"

text \<open>The integers that the storage engine takes as a key: signed, 64 bits.\<close>

definition sqlite_integer :: "int \<Rightarrow> bool" where
  "sqlite_integer i = (- (2 ^ 63) \<le> i \<and> i < 2 ^ 63)"

text \<open>
  \<open>session.get(TodoItem, todo_id)\<close>: the row with that primary key, if any. The
  session is new, so the key is sent to the engine as the parameter of a query, and an
  integer that does not fit raises \<open>OverflowError\<close> there.
\<close>

definition session_get :: "db \<Rightarrow> int \<Rightarrow> error + TodoItem option" where
  "session_get db i =
     (if sqlite_integer i then Inr (find (\<lambda>row. todo_id row = i) db) else Inl OverflowError)"

text \<open>
  The key of a new row. The request carries no \<open>id\<close>, so the row is inserted with a
  null key and the storage engine chooses it. The engine is SQLite
  (\<open>DATABASE_URL = "sqlite:///./sql_app.db"\<close>) and the column is an integer primary
  key declared without the \<open>sqlite_autoincrement\<close> table argument: the key is one more
  than the largest key in the table, and 1 in an empty table.
\<close>

definition next_rowid :: "db \<Rightarrow> int" where
  "next_rowid db = (if db = [] then 1 else Max (set (map todo_id db)) + 1)"

definition create_todo_db :: "db \<Rightarrow> TodoItemCreate \<Rightarrow> error + db \<times> TodoItem" where
  "create_todo_db db todo_create =
     (case new_priority todo_create of
        Some p \<Rightarrow> if 50 < length p then Inl ValidationError
                  else
                    (let db_todo = \<lparr>todo_id = next_rowid db, title = new_title todo_create,
                           description = new_description todo_create, completed = False,
                           priority = new_priority todo_create,
                           due_date = new_due_date todo_create\<rparr>
                     in Inr (db @ [db_todo], db_todo))
      | None \<Rightarrow>
          (let db_todo = \<lparr>todo_id = next_rowid db, title = new_title todo_create,
                 description = new_description todo_create, completed = False,
                 priority = None, due_date = new_due_date todo_create\<rparr>
           in Inr (db @ [db_todo], db_todo)))"

text \<open>
  \<open>todo.sqlmodel_update(update_data)\<close> assigns every key of \<open>update_data\<close> to the
  object and touches no other attribute; it does not validate. A nullable column takes
  whatever was given, \<open>None\<close> included.
\<close>

definition set_nullable :: "'a option supplied \<Rightarrow> 'a option \<Rightarrow> 'a option" where
  "set_nullable f old = (case f of Unset \<Rightarrow> old | Given v \<Rightarrow> v)"

text \<open>A NOT NULL column given \<open>None\<close> makes the commit fail.\<close>

definition set_required :: "'a option supplied \<Rightarrow> 'a \<Rightarrow> error + 'a" where
  "set_required f old =
     (case f of Unset \<Rightarrow> Inr old | Given None \<Rightarrow> Inl IntegrityError | Given (Some v) \<Rightarrow> Inr v)"

definition sqlmodel_update :: "TodoItem \<Rightarrow> TodoItemUpdate \<Rightarrow> error + TodoItem" where
  "sqlmodel_update todo update_data =
     (case set_required (upd_title update_data) (title todo) of
        Inl e \<Rightarrow> Inl e
      | Inr t \<Rightarrow>
          (case set_required (upd_completed update_data) (completed todo) of
             Inl e \<Rightarrow> Inl e
           | Inr c \<Rightarrow>
               Inr \<lparr>todo_id = todo_id todo, title = t,
                    description = set_nullable (upd_description update_data) (description todo),
                    completed = c,
                    priority = set_nullable (upd_priority update_data) (priority todo),
                    due_date = set_nullable (upd_due_date update_data) (due_date todo)\<rparr>))"

text \<open>
  \<open>update_todo_db\<close>: \<open>None\<close> when no row has the key; otherwise the row is rewritten
  in place (\<open>UPDATE ... WHERE id = ?\<close>) and read back. An exception of
  \<open>session.get\<close> or of the commit leaves the function.
\<close>

definition update_todo_db :: "db \<Rightarrow> int \<Rightarrow> TodoItemUpdate \<Rightarrow> error + db \<times> TodoItem option" where
  "update_todo_db db i todo_update =
     (case session_get db i of
        Inl e \<Rightarrow> Inl e
      | Inr None \<Rightarrow> Inr (db, None)
      | Inr (Some todo) \<Rightarrow>
          (case sqlmodel_update todo todo_update of
             Inl e \<Rightarrow> Inl e
           | Inr todo' \<Rightarrow>
               Inr (map (\<lambda>row. if todo_id row = i then todo' else row) db, Some todo')))"

text \<open>
  \<open>delete_todo_db\<close>: \<open>False\<close> when no row has the key; otherwise
  \<open>DELETE ... WHERE id = ?\<close> and \<open>True\<close>. An exception of \<open>session.get\<close> leaves
  the function.
\<close>

definition delete_todo_db :: "db \<Rightarrow> int \<Rightarrow> error + db \<times> bool" where
  "delete_todo_db db i =
     (case session_get db i of
        Inl e \<Rightarrow> Inl e
      | Inr None \<Rightarrow> Inr (db, False)
      | Inr (Some todo) \<Rightarrow> Inr (filter (\<lambda>row. todo_id row \<noteq> i) db, True))"

text \<open>
  A client of the store: a sequence of calls, run one after the other on the same
  table. A call that raises leaves the table as it was. The second component lists the
  items that the successful calls of \<open>create_todo_db\<close> returned, in order.
\<close>

datatype store_op = Create TodoItemCreate | Update int TodoItemUpdate | Delete int

fun is_delete :: "store_op \<Rightarrow> bool" where
  "is_delete (Delete i) = True"
| "is_delete (Create c) = False"
| "is_delete (Update i u) = False"

fun run_ops :: "db \<Rightarrow> store_op list \<Rightarrow> db \<times> TodoItem list" where
  "run_ops db [] = (db, [])"
| "run_ops db (Create c # ops) =
     (case create_todo_db db c of
        Inl e \<Rightarrow> run_ops db ops
      | Inr (db1, t) \<Rightarrow> (fst (run_ops db1 ops), t # snd (run_ops db1 ops)))"
| "run_ops db (Update i u # ops) =
     (case update_todo_db db i u of
        Inl e \<Rightarrow> run_ops db ops
      | Inr (db1, r) \<Rightarrow> run_ops db1 ops)"
| "run_ops db (Delete i # ops) =
     (case delete_todo_db db i of
        Inl e \<Rightarrow> run_ops db ops
      | Inr (db1, r) \<Rightarrow> run_ops db1 ops)"

section \<open>The translation client (app.py, lines 52-62 and 133-144)\<close>

text \<open>
  What the page does besides changing the table and the session state: the messages it
  shows, the rerun it asks for, and the call to the text-generation service
  (\<open>Generate_content\<close> with the prompt sent).
\<close>

datatype ui_event =
    St_error string
  | St_exception string error
  | St_warning string
  | St_success string
  | St_rerun
  | Generate_content string

fun api_calls :: "ui_event list \<Rightarrow> string list" where
  "api_calls [] = []"
| "api_calls (Generate_content prompt # evs) = prompt # api_calls evs"
| "api_calls (ev # evs) = api_calls evs"

text \<open>
  The configuration at start-up. \<open>key\<close> is \<open>os.getenv("GOOGLE_API_KEY")\<close>;
  \<open>make_model\<close> stands for \<open>genai.configure\<close> followed by
  \<open>genai.GenerativeModel\<close>, which either raises (\<open>Inl\<close>, the text of the exception)
  or gives the model.
\<close>

definition configure_gemini :: "(string \<Rightarrow> string + 'm) \<Rightarrow> string option \<Rightarrow> 'm option \<times> ui_event list" where
  "configure_gemini make_model key =
     (case key of
        None \<Rightarrow>
          (None, [St_error ''GOOGLE_API_KEY not found in environment variables. Please set it as a Streamlit Secret.''])
      | Some k \<Rightarrow>
          if k = [] then
            (None, [St_error ''GOOGLE_API_KEY not found in environment variables. Please set it as a Streamlit Secret.''])
          else
            (case make_model k of
               Inl e \<Rightarrow> (None, [St_error (''Error configuring Google Gemini API: '' @ e)])
             | Inr m \<Rightarrow> (Some m, [])))"

text \<open>
  \<open>translate_text_gemini\<close>. The model, when there is one, is the function from the
  prompt to the outcome of \<open>generate_content(prompt)\<close> and \<open>response.text\<close>: the
  text of the exception raised, or the text generated.
\<close>

definition translate_text_gemini ::
  "(string \<Rightarrow> string + string) option \<Rightarrow> string \<Rightarrow> string \<Rightarrow> string option \<times> ui_event list" where
  "translate_text_gemini gemini_model text target_language =
     (case gemini_model of
        None \<Rightarrow>
          (None, [St_error ''Translation service not available. API key might be missing or invalid.''])
      | Some generate_content \<Rightarrow>
          (let prompt = ''Translate the following text into '' @ target_language @ '': '' @ text
           in case generate_content prompt of
                Inl e \<Rightarrow> (None, [Generate_content prompt, St_error (''Gemini translation error: '' @ e)])
              | Inr translated_content \<Rightarrow> (Some translated_content, [Generate_content prompt])))"

section \<open>The page (app.py, lines 88-89 and 194-303)\<close>

text \<open>
  The session state \<open>st.session_state.translations\<close>, called \<open>cache\<close> here: a
  dictionary from item id to a dictionary from language to translated text.
\<close>

type_synonym translation_cache = "int \<rightharpoonup> (string \<rightharpoonup> string)"

text \<open>The lookup that decides whether a translation is shown (lines 243-245, 291-293).\<close>

definition shown_translation :: "translation_cache \<Rightarrow> int \<Rightarrow> string \<Rightarrow> string option" where
  "shown_translation cache i target_language =
     (case cache i of
        None \<Rightarrow> None
      | Some by_language \<Rightarrow> by_language target_language)"

text \<open>
  The body of \<open>if add_button:\<close>. The widgets give strings (the empty string when
  nothing was typed), one of the four priority labels and an optional date.
\<close>

definition add_todo_form :: "db \<Rightarrow> string \<Rightarrow> string \<Rightarrow> string \<Rightarrow> date option \<Rightarrow> db \<times> ui_event list" where
  "add_todo_form db submitted_title submitted_description chosen_priority submitted_due_date =
     (let submitted_priority = (if chosen_priority \<noteq> ''None'' then Some chosen_priority else None)
      in if submitted_title \<noteq> [] then
           (case create_todo_db db
                   \<lparr>new_title = submitted_title, new_description = Some submitted_description,
                    new_priority = submitted_priority, new_due_date = submitted_due_date\<rparr> of
              Inr (db', t) \<Rightarrow> (db', [St_success ''To-Do item added successfully!'', St_rerun])
            | Inl e \<Rightarrow> (db, [St_exception ''Error adding todo: '' e]))
         else (db, [St_warning ''Please enter a title for the To-Do item.'']))"

text \<open>The two lists of the page (lines 225-226).\<close>

definition incomplete_todos :: "TodoItem list \<Rightarrow> TodoItem list" where
  "incomplete_todos todos = [todo \<leftarrow> todos. \<not> completed todo]"

definition completed_todos :: "TodoItem list \<Rightarrow> TodoItem list" where
  "completed_todos todos = [todo \<leftarrow> todos. completed todo]"

text \<open>The button "Mark Completed" (lines 248-250): \<open>TodoItemUpdate(completed=True)\<close>.\<close>

definition completed_True :: TodoItemUpdate where
  "completed_True =
     \<lparr>upd_title = Unset, upd_description = Unset, upd_completed = Given (Some True),
      upd_priority = Unset, upd_due_date = Unset\<rparr>"

definition mark_completed_button :: "db \<Rightarrow> TodoItem \<Rightarrow> error + db \<times> ui_event list" where
  "mark_completed_button db todo =
     (case update_todo_db db (todo_id todo) completed_True of
        Inl e \<Rightarrow> Inl e
      | Inr (db', r) \<Rightarrow> Inr (db', [St_rerun]))"

text \<open>The text sent for translation (lines 253-259).\<close>

definition text_to_translate :: "TodoItem \<Rightarrow> string" where
  "text_to_translate todo =
     (let t1 = title todo;
          t2 = (case description todo of
                  None \<Rightarrow> t1
                | Some d \<Rightarrow> if d \<noteq> [] then t1 @ '' (Description: '' @ d @ '')'' else t1);
          t3 = (case priority todo of
                  None \<Rightarrow> t2
                | Some p \<Rightarrow> if p \<noteq> [] then t2 @ '' (Priority: '' @ p @ '')'' else t2)
      in case due_date todo of
           None \<Rightarrow> t3
         | Some d \<Rightarrow> t3 @ '' (Due Date: '' @ isoformat d @ '')'')"

text \<open>The button "Translate to ..." (lines 252-266).\<close>

definition translate_button ::
  "(string \<Rightarrow> string + string) option \<Rightarrow> translation_cache \<Rightarrow> TodoItem \<Rightarrow> string \<Rightarrow> translation_cache \<times> ui_event list" where
  "translate_button gemini_model cache todo target_language =
     (case translate_text_gemini gemini_model (text_to_translate todo) target_language of
        (None, evs) \<Rightarrow> (cache, evs)
      | (Some translated_text, evs) \<Rightarrow>
          if translated_text \<noteq> [] then
            (let by_language = (case cache (todo_id todo) of
                                  None \<Rightarrow> Map.empty
                                | Some m \<Rightarrow> m)
             in (cache(todo_id todo \<mapsto> by_language(target_language \<mapsto> translated_text)),
                 evs @ [St_rerun]))
          else (cache, evs))"

text \<open>
  The button "Delete", the same code for a pending task (lines 268-272) and for a
  completed one (lines 297-301). An exception of \<open>delete_todo_db\<close> ends the run of
  the page before the session state is touched.
\<close>

definition delete_button ::
  "db \<Rightarrow> translation_cache \<Rightarrow> TodoItem \<Rightarrow> error + db \<times> translation_cache \<times> ui_event list" where
  "delete_button db cache todo =
     (case delete_todo_db db (todo_id todo) of
        Inl e \<Rightarrow> Inl e
      | Inr (db', deleted) \<Rightarrow>
          (let cache' = (case cache (todo_id todo) of
                           None \<Rightarrow> cache
                         | Some by_language \<Rightarrow> cache(todo_id todo := None))
           in Inr (db', cache', [St_rerun])))"

section \<open>Properties of the item store\<close>

lemma session_get_None_iff:
  "session_get db i = Inr None \<longleftrightarrow> sqlite_integer i \<and> i \<notin> todo_id ` set db"
  by (auto simp: session_get_def find_None_iff)

lemma session_get_Some:
  "session_get db i = Inr (Some todo) \<Longrightarrow> todo \<in> set db \<and> todo_id todo = i \<and> sqlite_integer i"
  by (auto simp: session_get_def find_Some_iff split: if_splits)

lemma session_get_overflow: "\<not> sqlite_integer i \<Longrightarrow> session_get db i = Inl OverflowError"
  by (simp add: session_get_def)

lemma session_get_present:
  "sqlite_integer i \<Longrightarrow> i \<in> todo_id ` set db \<Longrightarrow> \<exists>todo. session_get db i = Inr (Some todo)"
proof -
  assume a: "sqlite_integer i" "i \<in> todo_id ` set db"
  then have "find (\<lambda>row. todo_id row = i) db \<noteq> None"
    by (auto simp: find_None_iff)
  with a(1) show ?thesis
    by (auto simp: session_get_def)
qed

lemma filter_absent: "i \<notin> todo_id ` set db \<Longrightarrow> filter (\<lambda>row. todo_id row \<noteq> i) db = db"
  by (induction db) auto

lemma delete_absent:
  "sqlite_integer i \<Longrightarrow> i \<notin> todo_id ` set db \<Longrightarrow> delete_todo_db db i = Inr (db, False)"
proof -
  assume "sqlite_integer i" "i \<notin> todo_id ` set db"
  then have "session_get db i = Inr None"
    by (simp add: session_get_None_iff)
  then show ?thesis
    by (simp add: delete_todo_db_def)
qed

lemma delete_present:
  "sqlite_integer i \<Longrightarrow> i \<in> todo_id ` set db \<Longrightarrow>
   delete_todo_db db i = Inr (filter (\<lambda>row. todo_id row \<noteq> i) db, True)"
proof -
  assume "sqlite_integer i" "i \<in> todo_id ` set db"
  then obtain todo where "session_get db i = Inr (Some todo)"
    using session_get_present by blast
  then show ?thesis
    by (simp add: delete_todo_db_def)
qed

lemma delete_overflow: "\<not> sqlite_integer i \<Longrightarrow> delete_todo_db db i = Inl OverflowError"
  by (simp add: delete_todo_db_def session_get_overflow)

lemma delete_returns:
  assumes "delete_todo_db db i = Inr (db1, deleted)"
  shows "sqlite_integer i \<and> db1 = filter (\<lambda>row. todo_id row \<noteq> i) db \<and>
         deleted = (i \<in> todo_id ` set db)"
proof (cases "sqlite_integer i")
  case False
  with assms show ?thesis
    by (simp add: delete_overflow)
next
  case True
  show ?thesis
  proof (cases "i \<in> todo_id ` set db")
    case True
    with assms \<open>sqlite_integer i\<close> show ?thesis
      by (simp add: delete_present)
  next
    case False
    with assms \<open>sqlite_integer i\<close> show ?thesis
      by (simp add: delete_absent filter_absent)
  qed
qed

lemma deleted_id_gone: "delete_todo_db db i = Inr (db1, deleted) \<Longrightarrow> i \<notin> todo_id ` set db1"
  using delete_returns [of db i db1 deleted] by auto

text \<open>
  C4, as amended: deleting an id that is in the store and is a signed 64-bit integer
  returns true, and afterwards the list of all items holds no item with that id;
  deleting a signed 64-bit integer that is not an id in the store returns false;
  deleting an integer outside the signed 64-bit range raises \<open>OverflowError\<close>.
\<close>

theorem delete_removes_row:
  "(sqlite_integer i \<and> i \<in> todo_id ` set (get_all_todos_db db) \<longrightarrow>
      (\<exists>db1. delete_todo_db db i = Inr (db1, True) \<and>
         i \<notin> todo_id ` set (get_all_todos_db db1))) \<and>
   (sqlite_integer i \<and> i \<notin> todo_id ` set (get_all_todos_db db) \<longrightarrow>
      (\<exists>db1. delete_todo_db db i = Inr (db1, False))) \<and>
   (\<not> sqlite_integer i \<longrightarrow> delete_todo_db db i = Inl OverflowError)"
  unfolding get_all_todos_db_def
  by (auto simp: delete_absent delete_present delete_overflow)

text \<open>
  The claim C4 as it is written fails for an integer outside the signed 64-bit range:
  2^63 is not an id in the store, and deleting it raises instead of returning false.
\<close>

theorem delete_removes_row_counterexample:
  "9223372036854775808 \<notin> todo_id ` set (get_all_todos_db
       [\<lparr>todo_id = 1, title = ''Buy milk'', description = None, completed = False,
         priority = None, due_date = None\<rparr>]) \<and>
   delete_todo_db
       [\<lparr>todo_id = 1, title = ''Buy milk'', description = None, completed = False,
         priority = None, due_date = None\<rparr>] 9223372036854775808 = Inl OverflowError"
  by (simp add: get_all_todos_db_def delete_todo_db_def session_get_def sqlite_integer_def)

theorem delete_removes_row_witness:
  "sqlite_integer 1 \<and>
   1 \<in> todo_id ` set (get_all_todos_db
       [\<lparr>todo_id = 1, title = ''Buy milk'', description = None, completed = False,
         priority = None, due_date = None\<rparr>]) \<and>
   delete_todo_db
       [\<lparr>todo_id = 1, title = ''Buy milk'', description = None, completed = False,
         priority = None, due_date = None\<rparr>] 1 = Inr ([], True) \<and>
   sqlite_integer 2 \<and>
   2 \<notin> todo_id ` set (get_all_todos_db
       [\<lparr>todo_id = 1, title = ''Buy milk'', description = None, completed = False,
         priority = None, due_date = None\<rparr>]) \<and>
   delete_todo_db
       [\<lparr>todo_id = 1, title = ''Buy milk'', description = None, completed = False,
         priority = None, due_date = None\<rparr>] 2 =
     Inr ([\<lparr>todo_id = 1, title = ''Buy milk'', description = None, completed = False,
         priority = None, due_date = None\<rparr>], False) \<and>
   \<not> sqlite_integer (- 9223372036854775809) \<and>
   delete_todo_db
       [\<lparr>todo_id = 1, title = ''Buy milk'', description = None, completed = False,
         priority = None, due_date = None\<rparr>] (- 9223372036854775809) = Inl OverflowError"
  using delete_removes_row [of 1 "[\<lparr>todo_id = 1, title = ''Buy milk'', description = None, completed = False,
         priority = None, due_date = None\<rparr>]"]
        delete_removes_row [of 2 "[\<lparr>todo_id = 1, title = ''Buy milk'', description = None, completed = False,
         priority = None, due_date = None\<rparr>]"]
        delete_removes_row [of "- 9223372036854775809" "[\<lparr>todo_id = 1, title = ''Buy milk'', description = None, completed = False,
         priority = None, due_date = None\<rparr>]"]
  by (simp add: get_all_todos_db_def delete_todo_db_def session_get_def sqlite_integer_def)

text \<open>
  C5, as amended: for a signed 64-bit integer, deleting it twice in a row returns both
  times, the second call returns false and the store is what it was after the first
  call; deleting a signed 64-bit integer that is not an id in the store returns false
  and leaves the store, and so the number of items, as it was; deleting an integer
  outside the signed 64-bit range raises \<open>OverflowError\<close>, the first time and every
  time after.
\<close>

theorem delete_twice:
  "(sqlite_integer i \<longrightarrow>
      (\<exists>db1 deleted. delete_todo_db db i = Inr (db1, deleted) \<and>
         delete_todo_db db1 i = Inr (db1, False) \<and>
         get_all_todos_db (fst (projr (delete_todo_db db1 i))) = get_all_todos_db db1)) \<and>
   (sqlite_integer i \<and> i \<notin> todo_id ` set (get_all_todos_db db) \<longrightarrow>
      delete_todo_db db i = Inr (db, False) \<and>
      length (get_all_todos_db (fst (projr (delete_todo_db db i)))) = length (get_all_todos_db db)) \<and>
   (\<not> sqlite_integer i \<longrightarrow> delete_todo_db db i = Inl OverflowError)"
proof (intro conjI impI)
  assume ok: "sqlite_integer i"
  obtain db1 deleted where first: "delete_todo_db db i = Inr (db1, deleted)"
    using ok delete_absent [of i db] delete_present [of i db] by blast
  have "i \<notin> todo_id ` set db1"
    using first by (rule deleted_id_gone)
  with ok have second: "delete_todo_db db1 i = Inr (db1, False)"
    by (rule delete_absent)
  then have "get_all_todos_db (fst (projr (delete_todo_db db1 i))) = get_all_todos_db db1"
    by simp
  with first second
  show "\<exists>db1 deleted. delete_todo_db db i = Inr (db1, deleted) \<and>
         delete_todo_db db1 i = Inr (db1, False) \<and>
         get_all_todos_db (fst (projr (delete_todo_db db1 i))) = get_all_todos_db db1"
    by blast
next
  assume a: "sqlite_integer i \<and> i \<notin> todo_id ` set (get_all_todos_db db)"
  then show absent: "delete_todo_db db i = Inr (db, False)"
    by (simp add: delete_absent get_all_todos_db_def)
  then show "length (get_all_todos_db (fst (projr (delete_todo_db db i)))) =
      length (get_all_todos_db db)"
    by simp
next
  assume "\<not> sqlite_integer i"
  then show "delete_todo_db db i = Inl OverflowError"
    by (rule delete_overflow)
qed

text \<open>
  The claim C5 as it is written fails for an integer outside the signed 64-bit range:
  the first call for 2^63 raises and leaves the store as it was, and the second call,
  on the same store, raises again instead of returning false.
\<close>

theorem delete_twice_counterexample:
  "delete_todo_db
       [\<lparr>todo_id = 1, title = ''Buy milk'', description = None, completed = False,
         priority = None, due_date = None\<rparr>,
        \<lparr>todo_id = 2, title = ''Walk dog'', description = None, completed = True,
         priority = Some ''Low'', due_date = None\<rparr>] 9223372036854775808 = Inl OverflowError \<and>
   delete_todo_db
       [\<lparr>todo_id = 1, title = ''Buy milk'', description = None, completed = False,
         priority = None, due_date = None\<rparr>,
        \<lparr>todo_id = 2, title = ''Walk dog'', description = None, completed = True,
         priority = Some ''Low'', due_date = None\<rparr>] 9223372036854775808 \<noteq>
     Inr ([\<lparr>todo_id = 1, title = ''Buy milk'', description = None, completed = False,
         priority = None, due_date = None\<rparr>,
        \<lparr>todo_id = 2, title = ''Walk dog'', description = None, completed = True,
         priority = Some ''Low'', due_date = None\<rparr>], False)"
  by (simp add: delete_todo_db_def session_get_def sqlite_integer_def)

theorem delete_twice_witness:
  "sqlite_integer 1 \<and>
   delete_todo_db
       [\<lparr>todo_id = 1, title = ''Buy milk'', description = None, completed = False,
         priority = None, due_date = None\<rparr>] 1 = Inr ([], True) \<and>
   delete_todo_db [] 1 = Inr ([], False) \<and>
   sqlite_integer 7 \<and>
   7 \<notin> todo_id ` set (get_all_todos_db
       [\<lparr>todo_id = 1, title = ''Buy milk'', description = None, completed = False,
         priority = None, due_date = None\<rparr>]) \<and>
   delete_todo_db
       [\<lparr>todo_id = 1, title = ''Buy milk'', description = None, completed = False,
         priority = None, due_date = None\<rparr>] 7 =
     Inr ([\<lparr>todo_id = 1, title = ''Buy milk'', description = None, completed = False,
         priority = None, due_date = None\<rparr>], False) \<and>
   \<not> sqlite_integer 9223372036854775808 \<and>
   delete_todo_db
       [\<lparr>todo_id = 1, title = ''Buy milk'', description = None, completed = False,
         priority = None, due_date = None\<rparr>] 9223372036854775808 = Inl OverflowError"
  using delete_twice [of 1 "[\<lparr>todo_id = 1, title = ''Buy milk'', description = None, completed = False,
         priority = None, due_date = None\<rparr>]"]
        delete_twice [of 7 "[\<lparr>todo_id = 1, title = ''Buy milk'', description = None, completed = False,
         priority = None, due_date = None\<rparr>]"]
        delete_twice [of 9223372036854775808 "[\<lparr>todo_id = 1, title = ''Buy milk'', description = None, completed = False,
         priority = None, due_date = None\<rparr>]"]
  by (simp add: get_all_todos_db_def delete_todo_db_def session_get_def sqlite_integer_def)


lemma sqlmodel_update_id: "sqlmodel_update todo u = Inr todo' \<Longrightarrow> todo_id todo' = todo_id todo"
  by (auto simp: sqlmodel_update_def split: sum.splits)

lemma sqlmodel_update_unset:
  assumes "sqlmodel_update todo u = Inr todo'"
  shows "upd_title u = Unset \<Longrightarrow> title todo' = title todo"
    and "upd_description u = Unset \<Longrightarrow> description todo' = description todo"
    and "upd_completed u = Unset \<Longrightarrow> completed todo' = completed todo"
    and "upd_priority u = Unset \<Longrightarrow> priority todo' = priority todo"
    and "upd_due_date u = Unset \<Longrightarrow> due_date todo' = due_date todo"
  using assms
  by (auto simp: sqlmodel_update_def set_required_def set_nullable_def split: sum.splits)

lemma session_get_rewritten:
  "todo_id todo' = i \<Longrightarrow> session_get db i = Inr (Some todo) \<Longrightarrow>
   session_get (map (\<lambda>row. if todo_id row = i then todo' else row) db) i = Inr (Some todo')"
  by (induction db) (auto simp: session_get_def split: if_splits)

lemma other_rows_kept:
  "todo_id todo' = i \<Longrightarrow>
   [row \<leftarrow> map (\<lambda>row. if todo_id row = i then todo' else row) db. todo_id row \<noteq> i] =
   [row \<leftarrow> db. todo_id row \<noteq> i]"
  by (induction db) auto

lemma ids_kept:
  "todo_id todo' = i \<Longrightarrow>
   map todo_id (map (\<lambda>row. if todo_id row = i then todo' else row) db) = map todo_id db"
  by (induction db) auto

lemma update_absent: "session_get db i = Inr None \<Longrightarrow> update_todo_db db i u = Inr (db, None)"
  by (simp add: update_todo_db_def)

lemma update_overflow: "\<not> sqlite_integer i \<Longrightarrow> update_todo_db db i u = Inl OverflowError"
  by (simp add: update_todo_db_def session_get_overflow)

lemma update_present:
  "session_get db i = Inr (Some todo) \<Longrightarrow> sqlmodel_update todo u = Inr todo' \<Longrightarrow>
   update_todo_db db i u = Inr (map (\<lambda>row. if todo_id row = i then todo' else row) db, Some todo')"
  by (simp add: update_todo_db_def)

lemma update_raises:
  "session_get db i = Inr (Some todo) \<Longrightarrow> sqlmodel_update todo u = Inl e \<Longrightarrow>
   update_todo_db db i u = Inl e"
  by (simp add: update_todo_db_def)

lemma update_returns:
  assumes "session_get db i = Inr (Some todo)" and "update_todo_db db i u = Inr (db', r)"
  shows "\<exists>todo'. sqlmodel_update todo u = Inr todo' \<and> r = Some todo' \<and>
           db' = map (\<lambda>row. if todo_id row = i then todo' else row) db"
  using assms by (auto simp: update_todo_db_def split: sum.splits)

lemma sqlmodel_update_completed_True:
  "sqlmodel_update todo completed_True = Inr (todo\<lparr>completed := True\<rparr>)"
  by (simp add: sqlmodel_update_def completed_True_def set_required_def set_nullable_def)

text \<open>
  C1: for an id that is in the store, whenever the update returns, it returns the item
  that is now stored under the id, and every field that the request leaves unset has
  the value it had before the call; the rows with other ids are as they were. In
  particular the request that sets only \<open>completed\<close> to true returns, and leaves title,
  description, priority and due date as they were.
\<close>

theorem update_preserves_unset_fields:
  assumes "session_get db i = Inr (Some todo)"
  shows "(\<forall>db' r. update_todo_db db i u = Inr (db', r) \<longrightarrow>
            (\<exists>todo'. r = Some todo' \<and> session_get db' i = Inr (Some todo') \<and> todo_id todo' = i \<and>
               (upd_title u = Unset \<longrightarrow> title todo' = title todo) \<and>
               (upd_description u = Unset \<longrightarrow> description todo' = description todo) \<and>
               (upd_completed u = Unset \<longrightarrow> completed todo' = completed todo) \<and>
               (upd_priority u = Unset \<longrightarrow> priority todo' = priority todo) \<and>
               (upd_due_date u = Unset \<longrightarrow> due_date todo' = due_date todo)) \<and>
            [row \<leftarrow> db'. todo_id row \<noteq> i] = [row \<leftarrow> db. todo_id row \<noteq> i]) \<and>
         (\<exists>db' todo'. update_todo_db db i completed_True = Inr (db', Some todo') \<and>
            session_get db' i = Inr (Some todo') \<and> todo_id todo' = i \<and> completed todo' = True \<and>
            title todo' = title todo \<and> description todo' = description todo \<and>
            priority todo' = priority todo \<and> due_date todo' = due_date todo)"
proof (intro conjI allI impI)
  have id: "todo_id todo = i"
    using assms session_get_Some by blast
  {
    fix db' r
    assume ret: "update_todo_db db i u = Inr (db', r)"
    from update_returns [OF assms ret] obtain todo' where
      upd: "sqlmodel_update todo u = Inr todo'" and r: "r = Some todo'" and
      db': "db' = map (\<lambda>row. if todo_id row = i then todo' else row) db"
      by blast
    have id': "todo_id todo' = i"
      using sqlmodel_update_id [OF upd] id by simp
    have stored: "session_get db' i = Inr (Some todo')"
      unfolding db' by (rule session_get_rewritten [OF id' assms])
    show "\<exists>todo'. r = Some todo' \<and> session_get db' i = Inr (Some todo') \<and> todo_id todo' = i \<and>
               (upd_title u = Unset \<longrightarrow> title todo' = title todo) \<and>
               (upd_description u = Unset \<longrightarrow> description todo' = description todo) \<and>
               (upd_completed u = Unset \<longrightarrow> completed todo' = completed todo) \<and>
               (upd_priority u = Unset \<longrightarrow> priority todo' = priority todo) \<and>
               (upd_due_date u = Unset \<longrightarrow> due_date todo' = due_date todo)"
      using r stored id' sqlmodel_update_unset [OF upd] by blast
    show "[row \<leftarrow> db'. todo_id row \<noteq> i] = [row \<leftarrow> db. todo_id row \<noteq> i]"
      unfolding db' by (rule other_rows_kept [OF id'])
  }
  let ?t = "todo\<lparr>completed := True\<rparr>"
  have id': "todo_id ?t = i"
    using id by simp
  have "update_todo_db db i completed_True =
          Inr (map (\<lambda>row. if todo_id row = i then ?t else row) db, Some ?t)"
    by (rule update_present [OF assms sqlmodel_update_completed_True])
  moreover have "session_get (map (\<lambda>row. if todo_id row = i then ?t else row) db) i = Inr (Some ?t)"
    by (rule session_get_rewritten [OF id' assms])
  ultimately show "\<exists>db' todo'. update_todo_db db i completed_True = Inr (db', Some todo') \<and>
            session_get db' i = Inr (Some todo') \<and> todo_id todo' = i \<and> completed todo' = True \<and>
            title todo' = title todo \<and> description todo' = description todo \<and>
            priority todo' = priority todo \<and> due_date todo' = due_date todo"
    using id' by auto
qed

theorem update_preserves_unset_fields_witness:
  "session_get
     [\<lparr>todo_id = 1, title = ''Buy milk'', description = Some ''2 litres'', completed = False,
       priority = Some ''High'', due_date = Some (Date 2025 6 30)\<rparr>] 1 =
     Inr (Some \<lparr>todo_id = 1, title = ''Buy milk'', description = Some ''2 litres'', completed = False,
       priority = Some ''High'', due_date = Some (Date 2025 6 30)\<rparr>) \<and>
   update_todo_db
     [\<lparr>todo_id = 1, title = ''Buy milk'', description = Some ''2 litres'', completed = False,
       priority = Some ''High'', due_date = Some (Date 2025 6 30)\<rparr>] 1 completed_True =
     Inr ([\<lparr>todo_id = 1, title = ''Buy milk'', description = Some ''2 litres'', completed = True,
             priority = Some ''High'', due_date = Some (Date 2025 6 30)\<rparr>],
          Some \<lparr>todo_id = 1, title = ''Buy milk'', description = Some ''2 litres'', completed = True,
             priority = Some ''High'', due_date = Some (Date 2025 6 30)\<rparr>)"
  using update_preserves_unset_fields [of
     "[\<lparr>todo_id = 1, title = ''Buy milk'', description = Some ''2 litres'', completed = False,
       priority = Some ''High'', due_date = Some (Date 2025 6 30)\<rparr>]" 1
     "\<lparr>todo_id = 1, title = ''Buy milk'', description = Some ''2 litres'', completed = False,
       priority = Some ''High'', due_date = Some (Date 2025 6 30)\<rparr>" completed_True]
  by (simp add: session_get_def sqlite_integer_def update_todo_db_def sqlmodel_update_def completed_True_def
      set_required_def set_nullable_def)

lemma set_required_ok:
  "f \<noteq> Given None \<Longrightarrow>
   set_required f old = Inr (case f of Unset \<Rightarrow> old | Given None \<Rightarrow> old | Given (Some v) \<Rightarrow> v)"
  by (cases f) (auto simp: set_required_def split: option.splits)

text \<open>
  C6, as amended: for a signed 64-bit integer that is not an id in the store the update
  returns \<open>None\<close> and the store is unchanged; for an id that is in the store (and is a
  signed 64-bit integer) and a request that sets neither \<open>title\<close> nor \<open>completed\<close>
  to \<open>None\<close>, the update returns the item as it stands after the merge, which is the
  item then stored under the id; for such an id and a request that sets \<open>title\<close> or
  \<open>completed\<close> to \<open>None\<close>, the commit fails with \<open>IntegrityError\<close> and nothing is
  returned; for an integer outside the signed 64-bit range the update raises
  \<open>OverflowError\<close>.
\<close>

theorem update_result:
  "(sqlite_integer i \<and> i \<notin> todo_id ` set (get_all_todos_db db) \<longrightarrow>
      update_todo_db db i u = Inr (db, None)) \<and>
   (sqlite_integer i \<and> i \<in> todo_id ` set (get_all_todos_db db) \<and>
    upd_title u \<noteq> Given None \<and> upd_completed u \<noteq> Given None \<longrightarrow>
      (\<exists>todo db' todo'. session_get db i = Inr (Some todo) \<and>
         update_todo_db db i u = Inr (db', Some todo') \<and>
         session_get (get_all_todos_db db') i = Inr (Some todo') \<and>
         todo_id todo' = i \<and>
         title todo' = (case upd_title u of Given (Some v) \<Rightarrow> v | _ \<Rightarrow> title todo) \<and>
         description todo' = (case upd_description u of Given v \<Rightarrow> v | Unset \<Rightarrow> description todo) \<and>
         completed todo' = (case upd_completed u of Given (Some v) \<Rightarrow> v | _ \<Rightarrow> completed todo) \<and>
         priority todo' = (case upd_priority u of Given v \<Rightarrow> v | Unset \<Rightarrow> priority todo) \<and>
         due_date todo' = (case upd_due_date u of Given v \<Rightarrow> v | Unset \<Rightarrow> due_date todo))) \<and>
   (sqlite_integer i \<and> i \<in> todo_id ` set (get_all_todos_db db) \<and>
    (upd_title u = Given None \<or> upd_completed u = Given None) \<longrightarrow>
      update_todo_db db i u = Inl IntegrityError) \<and>
   (\<not> sqlite_integer i \<longrightarrow> update_todo_db db i u = Inl OverflowError)"
proof (intro conjI impI)
  assume "sqlite_integer i \<and> i \<notin> todo_id ` set (get_all_todos_db db)"
  then have "session_get db i = Inr None"
    by (simp add: session_get_None_iff get_all_todos_db_def)
  then show "update_todo_db db i u = Inr (db, None)"
    by (rule update_absent)
next
  assume a: "sqlite_integer i \<and> i \<in> todo_id ` set (get_all_todos_db db) \<and>
    upd_title u \<noteq> Given None \<and> upd_completed u \<noteq> Given None"
  then obtain todo where get: "session_get db i = Inr (Some todo)"
    using session_get_present [of i db] by (auto simp: get_all_todos_db_def)
  have id: "todo_id todo = i"
    using get session_get_Some by blast
  define todo' where "todo' =
    \<lparr>todo_id = todo_id todo,
     title = (case upd_title u of Unset \<Rightarrow> title todo | Given None \<Rightarrow> title todo | Given (Some v) \<Rightarrow> v),
     description = set_nullable (upd_description u) (description todo),
     completed = (case upd_completed u of Unset \<Rightarrow> completed todo | Given None \<Rightarrow> completed todo
                  | Given (Some v) \<Rightarrow> v),
     priority = set_nullable (upd_priority u) (priority todo),
     due_date = set_nullable (upd_due_date u) (due_date todo)\<rparr>"
  have upd: "sqlmodel_update todo u = Inr todo'"
    using a by (simp add: sqlmodel_update_def set_required_ok todo'_def)
  have id': "todo_id todo' = i"
    using id by (simp add: todo'_def)
  have ret: "update_todo_db db i u =
      Inr (map (\<lambda>row. if todo_id row = i then todo' else row) db, Some todo')"
    by (rule update_present [OF get upd])
  have stored: "session_get (get_all_todos_db (map (\<lambda>row. if todo_id row = i then todo' else row) db)) i
      = Inr (Some todo')"
    unfolding get_all_todos_db_def by (rule session_get_rewritten [OF id' get])
  have fields:
    "title todo' = (case upd_title u of Given (Some v) \<Rightarrow> v | _ \<Rightarrow> title todo)"
    "description todo' = (case upd_description u of Given v \<Rightarrow> v | Unset \<Rightarrow> description todo)"
    "completed todo' = (case upd_completed u of Given (Some v) \<Rightarrow> v | _ \<Rightarrow> completed todo)"
    "priority todo' = (case upd_priority u of Given v \<Rightarrow> v | Unset \<Rightarrow> priority todo)"
    "due_date todo' = (case upd_due_date u of Given v \<Rightarrow> v | Unset \<Rightarrow> due_date todo)"
    by (simp_all add: todo'_def set_nullable_def split: supplied.splits option.splits)
  show "\<exists>todo db' todo'. session_get db i = Inr (Some todo) \<and>
         update_todo_db db i u = Inr (db', Some todo') \<and>
         session_get (get_all_todos_db db') i = Inr (Some todo') \<and>
         todo_id todo' = i \<and>
         title todo' = (case upd_title u of Given (Some v) \<Rightarrow> v | _ \<Rightarrow> title todo) \<and>
         description todo' = (case upd_description u of Given v \<Rightarrow> v | Unset \<Rightarrow> description todo) \<and>
         completed todo' = (case upd_completed u of Given (Some v) \<Rightarrow> v | _ \<Rightarrow> completed todo) \<and>
         priority todo' = (case upd_priority u of Given v \<Rightarrow> v | Unset \<Rightarrow> priority todo) \<and>
         due_date todo' = (case upd_due_date u of Given v \<Rightarrow> v | Unset \<Rightarrow> due_date todo)"
    using get ret stored id' fields by blast
next
  assume a: "sqlite_integer i \<and> i \<in> todo_id ` set (get_all_todos_db db) \<and>
    (upd_title u = Given None \<or> upd_completed u = Given None)"
  then obtain todo where get: "session_get db i = Inr (Some todo)"
    using session_get_present [of i db] by (auto simp: get_all_todos_db_def)
  have "sqlmodel_update todo u = Inl IntegrityError"
    using a by (auto simp: sqlmodel_update_def set_required_def split: sum.splits supplied.splits option.splits)
  then show "update_todo_db db i u = Inl IntegrityError"
    by (rule update_raises [OF get])
next
  assume "\<not> sqlite_integer i"
  then show "update_todo_db db i u = Inl OverflowError"
    by (rule update_overflow)
qed

text \<open>
  The claim C6 as it is written fails twice: the id 1 is in the store, and the request
  that sets \<open>title\<close> to \<open>None\<close> returns no item; and 2^63 is not an id in the store,
  and the update for it raises instead of returning \<open>None\<close>.
\<close>

theorem update_result_counterexample:
  "1 \<in> todo_id ` set (get_all_todos_db
     [\<lparr>todo_id = 1, title = ''Buy milk'', description = None, completed = False,
       priority = None, due_date = None\<rparr>]) \<and>
   update_todo_db
     [\<lparr>todo_id = 1, title = ''Buy milk'', description = None, completed = False,
       priority = None, due_date = None\<rparr>] 1
     \<lparr>upd_title = Given None, upd_description = Unset, upd_completed = Unset,
      upd_priority = Unset, upd_due_date = Unset\<rparr> = Inl IntegrityError \<and>
   9223372036854775808 \<notin> todo_id ` set (get_all_todos_db
     [\<lparr>todo_id = 1, title = ''Buy milk'', description = None, completed = False,
       priority = None, due_date = None\<rparr>]) \<and>
   update_todo_db
     [\<lparr>todo_id = 1, title = ''Buy milk'', description = None, completed = False,
       priority = None, due_date = None\<rparr>] 9223372036854775808
     \<lparr>upd_title = Unset, upd_description = Unset, upd_completed = Given (Some True),
      upd_priority = Unset, upd_due_date = Unset\<rparr> = Inl OverflowError"
  by (simp add: get_all_todos_db_def update_todo_db_def session_get_def sqlite_integer_def
      sqlmodel_update_def set_required_def)

theorem update_result_witness:
  "update_todo_db
     [\<lparr>todo_id = 1, title = ''Buy milk'', description = None, completed = False,
       priority = None, due_date = None\<rparr>] 2
     \<lparr>upd_title = Unset, upd_description = Unset, upd_completed = Unset,
      upd_priority = Given (Some ''High''), upd_due_date = Unset\<rparr> =
     Inr ([\<lparr>todo_id = 1, title = ''Buy milk'', description = None, completed = False,
       priority = None, due_date = None\<rparr>], None) \<and>
   update_todo_db
     [\<lparr>todo_id = 1, title = ''Buy milk'', description = None, completed = False,
       priority = None, due_date = None\<rparr>] 1
     \<lparr>upd_title = Unset, upd_description = Unset, upd_completed = Unset,
      upd_priority = Given (Some ''High''), upd_due_date = Unset\<rparr> =
     Inr ([\<lparr>todo_id = 1, title = ''Buy milk'', description = None, completed = False,
             priority = Some ''High'', due_date = None\<rparr>],
          Some \<lparr>todo_id = 1, title = ''Buy milk'', description = None, completed = False,
             priority = Some ''High'', due_date = None\<rparr>) \<and>
   update_todo_db
     [\<lparr>todo_id = 1, title = ''Buy milk'', description = None, completed = False,
       priority = None, due_date = None\<rparr>] 1
     \<lparr>upd_title = Unset, upd_description = Unset, upd_completed = Given None,
      upd_priority = Unset, upd_due_date = Unset\<rparr> = Inl IntegrityError \<and>
   update_todo_db
     [\<lparr>todo_id = 1, title = ''Buy milk'', description = None, completed = False,
       priority = None, due_date = None\<rparr>] (- 9223372036854775809)
     \<lparr>upd_title = Unset, upd_description = Unset, upd_completed = Unset,
      upd_priority = Given (Some ''High''), upd_due_date = Unset\<rparr> = Inl OverflowError"
  using update_result [of 2
     "[\<lparr>todo_id = 1, title = ''Buy milk'', description = None, completed = False,
       priority = None, due_date = None\<rparr>]"
     "\<lparr>upd_title = Unset, upd_description = Unset, upd_completed = Unset,
      upd_priority = Given (Some ''High''), upd_due_date = Unset\<rparr>"]
    update_result [of 1
     "[\<lparr>todo_id = 1, title = ''Buy milk'', description = None, completed = False,
       priority = None, due_date = None\<rparr>]"
     "\<lparr>upd_title = Unset, upd_description = Unset, upd_completed = Unset,
      upd_priority = Given (Some ''High''), upd_due_date = Unset\<rparr>"]
    update_result [of 1
     "[\<lparr>todo_id = 1, title = ''Buy milk'', description = None, completed = False,
       priority = None, due_date = None\<rparr>]"
     "\<lparr>upd_title = Unset, upd_description = Unset, upd_completed = Given None,
      upd_priority = Unset, upd_due_date = Unset\<rparr>"]
    update_result [of "- 9223372036854775809"
     "[\<lparr>todo_id = 1, title = ''Buy milk'', description = None, completed = False,
       priority = None, due_date = None\<rparr>]"
     "\<lparr>upd_title = Unset, upd_description = Unset, upd_completed = Unset,
      upd_priority = Given (Some ''High''), upd_due_date = Unset\<rparr>"]
  by (simp add: get_all_todos_db_def update_todo_db_def session_get_def sqlite_integer_def
      sqlmodel_update_def set_required_def set_nullable_def)

lemma next_rowid_above: "i \<in> todo_id ` set db \<Longrightarrow> i < next_rowid db"
proof -
  assume a: "i \<in> todo_id ` set db"
  then have "db \<noteq> []" by auto
  moreover have "i \<le> Max (set (map todo_id db))"
    using a by (intro Max_ge) auto
  ultimately show ?thesis
    by (simp add: next_rowid_def)
qed

lemma next_rowid_fresh: "next_rowid db \<notin> todo_id ` set db"
  using next_rowid_above [of "next_rowid db" db] by auto

lemma next_rowid_snoc:
  assumes "todo_id t = next_rowid db"
  shows "next_rowid (db @ [t]) = next_rowid db + 1"
proof (cases "db = []")
  case True
  with assms show ?thesis by (simp add: next_rowid_def)
next
  case False
  then have ne: "set (map todo_id db) \<noteq> {}" by simp
  have "Max (insert (todo_id t) (set (map todo_id db))) = max (todo_id t) (Max (set (map todo_id db)))"
    using ne by (intro Max_insert) auto
  also have "\<dots> = todo_id t"
    using assms False by (simp add: next_rowid_def)
  finally show ?thesis
    using assms by (simp add: next_rowid_def)
qed

lemma next_rowid_cong: "map todo_id db1 = map todo_id db \<Longrightarrow> next_rowid db1 = next_rowid db"
proof -
  assume a: "map todo_id db1 = map todo_id db"
  then have "(db1 = []) = (db = [])"
    by (metis map_is_Nil_conv)
  with a show ?thesis
    by (simp add: next_rowid_def)
qed

lemma create_returns:
  "create_todo_db db c = Inr (db1, t) \<Longrightarrow> db1 = db @ [t] \<and> todo_id t = next_rowid db"
  by (auto simp: create_todo_db_def Let_def split: option.splits if_splits)

lemma create_keeps_distinct:
  "create_todo_db db c = Inr (db1, t) \<Longrightarrow> distinct (map todo_id db) \<Longrightarrow> distinct (map todo_id db1)"
  using create_returns [of db c db1 t] next_rowid_fresh [of db] by auto

lemma update_keeps_ids:
  assumes "update_todo_db db i u = Inr (db1, r)"
  shows "map todo_id db1 = map todo_id db"
proof (cases "session_get db i")
  case (Inl e)
  with assms show ?thesis by (simp add: update_todo_db_def)
next
  case (Inr found)
  show ?thesis
  proof (cases found)
    case None
    with Inr assms show ?thesis by (simp add: update_todo_db_def)
  next
    case (Some todo)
    with Inr have get: "session_get db i = Inr (Some todo)" by simp
    from update_returns [OF get assms] obtain todo' where
      upd: "sqlmodel_update todo u = Inr todo'" and
      db1: "db1 = map (\<lambda>row. if todo_id row = i then todo' else row) db"
      by blast
    have "todo_id todo' = i"
      using sqlmodel_update_id [OF upd] session_get_Some [OF get] by simp
    then show ?thesis
      unfolding db1 by (rule ids_kept)
  qed
qed

lemma delete_keeps_distinct:
  "delete_todo_db db i = Inr (db1, deleted) \<Longrightarrow> distinct (map todo_id db) \<Longrightarrow>
   distinct (map todo_id db1)"
  using delete_returns [of db i db1 deleted] by (simp add: distinct_map_filter)

lemma run_ops_distinct:
  "distinct (map todo_id db) \<Longrightarrow> distinct (map todo_id (fst (run_ops db ops)))"
proof (induction db ops rule: run_ops.induct)
  case (1 db)
  then show ?case by simp
next
  case (2 db c ops)
  show ?case
  proof (cases "create_todo_db db c")
    case (Inl e)
    with 2 show ?thesis by simp
  next
    case (Inr p)
    obtain db1 t where p: "p = (db1, t)" by (cases p)
    have "distinct (map todo_id db1)"
      using create_keeps_distinct [of db c db1 t] Inr p "2.prems" by simp
    with "2.IH"(2) [OF Inr p [symmetric]] Inr p show ?thesis by simp
  qed
next
  case (3 db i u ops)
  show ?case
  proof (cases "update_todo_db db i u")
    case (Inl e)
    with 3 show ?thesis by simp
  next
    case (Inr p)
    obtain db1 r where p: "p = (db1, r)" by (cases p)
    have "distinct (map todo_id db1)"
      using update_keeps_ids [of db i u db1 r] Inr p "3.prems" by simp
    with "3.IH"(2) [OF Inr p [symmetric]] Inr p show ?thesis by simp
  qed
next
  case (4 db i ops)
  show ?case
  proof (cases "delete_todo_db db i")
    case (Inl e)
    with 4 show ?thesis by simp
  next
    case (Inr p)
    obtain db1 r where p: "p = (db1, r)" by (cases p)
    have "distinct (map todo_id db1)"
      using delete_keeps_distinct [of db i db1 r] Inr p "4.prems" by simp
    with "4.IH"(2) [OF Inr p [symmetric]] Inr p show ?thesis by simp
  qed
qed

lemma run_ops_created:
  "\<forall>op \<in> set ops. \<not> is_delete op \<Longrightarrow>
   distinct (map todo_id (snd (run_ops db ops))) \<and>
   (\<forall>t \<in> set (snd (run_ops db ops)). next_rowid db \<le> todo_id t)"
proof (induction db ops rule: run_ops.induct)
  case (1 db)
  then show ?case by simp
next
  case (2 db c ops)
  show ?case
  proof (cases "create_todo_db db c")
    case (Inl e)
    with 2 show ?thesis by simp
  next
    case (Inr p)
    obtain db1 t where p: "p = (db1, t)" by (cases p)
    have ret: "db1 = db @ [t]" "todo_id t = next_rowid db"
      using create_returns [of db c db1 t] Inr p by simp_all
    have next1: "next_rowid db1 = next_rowid db + 1"
      using next_rowid_snoc [OF ret(2)] ret(1) by simp
    have ih: "distinct (map todo_id (snd (run_ops db1 ops))) \<and>
        (\<forall>t \<in> set (snd (run_ops db1 ops)). next_rowid db1 \<le> todo_id t)"
      using "2.IH"(2) [OF Inr p [symmetric]] "2.prems" by simp
    then have "todo_id t \<notin> todo_id ` set (snd (run_ops db1 ops))"
      using next1 ret(2) by fastforce
    with ih next1 ret(2) Inr p show ?thesis by fastforce
  qed
next
  case (3 db i u ops)
  show ?case
  proof (cases "update_todo_db db i u")
    case (Inl e)
    with 3 show ?thesis by simp
  next
    case (Inr p)
    obtain db1 r where p: "p = (db1, r)" by (cases p)
    have "next_rowid db1 = next_rowid db"
      using update_keeps_ids [of db i u db1 r] Inr p by (intro next_rowid_cong) simp
    with "3.IH"(2) [OF Inr p [symmetric]] "3.prems" Inr p show ?thesis by simp
  qed
next
  case (4 db i ops)
  then show ?case by simp
qed

text \<open>
  C3, as amended: a create returns an item whose id the store chose (the request has no
  id) and which differs from the id of every item in the store at that time; so after
  any sequence of creates, updates and deletes on a store with pairwise distinct ids
  the ids in the store are pairwise distinct; and in a sequence without deletes the ids
  of the items created are pairwise distinct and differ from the ids that were in the
  store at the start.
\<close>

theorem created_ids_fresh:
  "(\<forall>db1 t. create_todo_db db c = Inr (db1, t) \<longrightarrow>
      todo_id t = next_rowid db \<and> todo_id t \<notin> todo_id ` set (get_all_todos_db db) \<and>
      get_all_todos_db db1 = get_all_todos_db db @ [t]) \<and>
   (distinct (map todo_id (get_all_todos_db db)) \<longrightarrow>
      distinct (map todo_id (get_all_todos_db (fst (run_ops db ops))))) \<and>
   ((\<forall>op \<in> set ops. \<not> is_delete op) \<longrightarrow>
      distinct (map todo_id (snd (run_ops db ops))) \<and>
      todo_id ` set (snd (run_ops db ops)) \<inter> todo_id ` set (get_all_todos_db db) = {})"
proof (intro conjI allI impI)
  fix db1 t
  assume "create_todo_db db c = Inr (db1, t)"
  then have ret: "db1 = db @ [t]" "todo_id t = next_rowid db"
    using create_returns [of db c db1 t] by simp_all
  show "todo_id t = next_rowid db" by (rule ret(2))
  show "todo_id t \<notin> todo_id ` set (get_all_todos_db db)"
    using ret(2) next_rowid_fresh [of db] by (simp add: get_all_todos_db_def)
  show "get_all_todos_db db1 = get_all_todos_db db @ [t]"
    using ret(1) by (simp add: get_all_todos_db_def)
next
  assume "distinct (map todo_id (get_all_todos_db db))"
  then show "distinct (map todo_id (get_all_todos_db (fst (run_ops db ops))))"
    by (simp add: get_all_todos_db_def run_ops_distinct)
next
  assume nd: "\<forall>op \<in> set ops. \<not> is_delete op"
  show "distinct (map todo_id (snd (run_ops db ops)))"
    using run_ops_created [OF nd] by simp
  show "todo_id ` set (snd (run_ops db ops)) \<inter> todo_id ` set (get_all_todos_db db) = {}"
    using run_ops_created [OF nd, of db] next_rowid_above [of _ db]
    by (fastforce simp: get_all_todos_db_def)
qed

text \<open>
  The claim C3 as it is written fails once a delete comes between two creates: the
  first item gets the id 1, is deleted, and the next item created gets the id 1 again.
\<close>

theorem created_ids_counterexample:
  "map todo_id (snd (run_ops []
     [Create \<lparr>new_title = ''Buy milk'', new_description = None, new_priority = None,
              new_due_date = None\<rparr>,
      Delete 1,
      Create \<lparr>new_title = ''Walk dog'', new_description = None, new_priority = None,
              new_due_date = None\<rparr>])) = [1, 1]"
  by (simp add: create_todo_db_def delete_todo_db_def session_get_def sqlite_integer_def
      next_rowid_def Let_def)

theorem created_ids_fresh_witness:
  "create_todo_db []
     \<lparr>new_title = ''Buy milk'', new_description = None, new_priority = None, new_due_date = None\<rparr> =
     Inr ([\<lparr>todo_id = 1, title = ''Buy milk'', description = None, completed = False,
             priority = None, due_date = None\<rparr>],
          \<lparr>todo_id = 1, title = ''Buy milk'', description = None, completed = False,
             priority = None, due_date = None\<rparr>) \<and>
   map todo_id (snd (run_ops []
     [Create \<lparr>new_title = ''Buy milk'', new_description = None, new_priority = None,
              new_due_date = None\<rparr>,
      Update 1 completed_True,
      Create \<lparr>new_title = ''Walk dog'', new_description = None, new_priority = None,
              new_due_date = None\<rparr>])) = [1, 2] \<and>
   map todo_id (fst (run_ops []
     [Create \<lparr>new_title = ''Buy milk'', new_description = None, new_priority = None,
              new_due_date = None\<rparr>,
      Update 1 completed_True,
      Create \<lparr>new_title = ''Walk dog'', new_description = None, new_priority = None,
              new_due_date = None\<rparr>])) = [1, 2]"
  using created_ids_fresh [of "[]"
     "\<lparr>new_title = ''Buy milk'', new_description = None, new_priority = None, new_due_date = None\<rparr>"
     "[Create \<lparr>new_title = ''Buy milk'', new_description = None, new_priority = None,
              new_due_date = None\<rparr>,
      Update 1 completed_True,
      Create \<lparr>new_title = ''Walk dog'', new_description = None, new_priority = None,
              new_due_date = None\<rparr>]"]
  by (simp add: create_todo_db_def update_todo_db_def session_get_def sqlite_integer_def
      next_rowid_def sqlmodel_update_def completed_True_def set_required_def set_nullable_def
      Let_def)

section \<open>Properties of the translation client and the page\<close>

lemma delete_button_returns:
  assumes "delete_button db cache todo = Inr (db', cache', evs)"
  shows "cache' = cache(todo_id todo := None)"
proof -
  have "(case cache (todo_id todo) of None \<Rightarrow> cache
         | Some by_language \<Rightarrow> cache(todo_id todo := None)) = cache(todo_id todo := None)"
    by (cases "cache (todo_id todo)") auto
  with assms show ?thesis
    by (auto simp: delete_button_def split: sum.splits)
qed

lemma delete_button_runs:
  assumes "sqlite_integer (todo_id todo)"
  shows "\<exists>db' cache' evs. delete_button db cache todo = Inr (db', cache', evs)"
proof -
  obtain db' deleted where "delete_todo_db db (todo_id todo) = Inr (db', deleted)"
    using assms delete_absent [of "todo_id todo" db] delete_present [of "todo_id todo" db]
    by blast
  then show ?thesis
    by (simp add: delete_button_def)
qed

text \<open>
  C7: whenever the delete button of an item has run, in any store and any session
  cache, the cache has no entry for the id of that item, so the lookup for that id
  gives nothing for every language. The button runs for every item whose id is a signed
  64-bit integer, as the id of every item read from the table is; for any other id
  \<open>delete_todo_db\<close> raises before the cache is touched.
\<close>

theorem delete_button_evicts:
  "(\<forall>db' cache' evs. delete_button db cache todo = Inr (db', cache', evs) \<longrightarrow>
      cache' (todo_id todo) = None \<and>
      shown_translation cache' (todo_id todo) target_language = None) \<and>
   (sqlite_integer (todo_id todo) \<longrightarrow>
      (\<exists>db' cache' evs. delete_button db cache todo = Inr (db', cache', evs) \<and>
         cache' (todo_id todo) = None \<and>
         shown_translation cache' (todo_id todo) target_language = None)) \<and>
   (\<not> sqlite_integer (todo_id todo) \<longrightarrow> delete_button db cache todo = Inl OverflowError)"
proof (intro conjI allI impI)
  fix db' cache' evs
  assume "delete_button db cache todo = Inr (db', cache', evs)"
  then have gone: "cache' = cache(todo_id todo := None)"
    by (rule delete_button_returns)
  then show "cache' (todo_id todo) = None"
    by simp
  from gone show "shown_translation cache' (todo_id todo) target_language = None"
    by (simp add: shown_translation_def)
next
  assume "sqlite_integer (todo_id todo)"
  then obtain db' cache' evs where run: "delete_button db cache todo = Inr (db', cache', evs)"
    using delete_button_runs by blast
  then have gone: "cache' = cache(todo_id todo := None)"
    by (rule delete_button_returns)
  then have "cache' (todo_id todo) = None"
    "shown_translation cache' (todo_id todo) target_language = None"
    by (simp_all add: shown_translation_def)
  with run show "\<exists>db' cache' evs. delete_button db cache todo = Inr (db', cache', evs) \<and>
         cache' (todo_id todo) = None \<and>
         shown_translation cache' (todo_id todo) target_language = None"
    by blast
next
  assume "\<not> sqlite_integer (todo_id todo)"
  then show "delete_button db cache todo = Inl OverflowError"
    by (simp add: delete_button_def delete_overflow)
qed

theorem delete_button_evicts_witness:
  "sqlite_integer (todo_id \<lparr>todo_id = 1, title = ''Buy milk'', description = None,
      completed = False, priority = None, due_date = None\<rparr>) \<and>
   (\<exists>db' cache' evs.
      delete_button
        [\<lparr>todo_id = 1, title = ''Buy milk'', description = None, completed = False,
          priority = None, due_date = None\<rparr>]
        [1 \<mapsto> [''Spanish'' \<mapsto> ''Comprar leche'']]
        \<lparr>todo_id = 1, title = ''Buy milk'', description = None, completed = False,
          priority = None, due_date = None\<rparr> = Inr (db', cache', evs) \<and>
      cache' 1 = None \<and> shown_translation cache' 1 ''Spanish'' = None) \<and>
   shown_translation [1 \<mapsto> [''Spanish'' \<mapsto> ''Comprar leche'']] 1 ''Spanish'' =
     Some ''Comprar leche''"
  using delete_button_evicts [of
        "[\<lparr>todo_id = 1, title = ''Buy milk'', description = None, completed = False,
          priority = None, due_date = None\<rparr>]"
        "[1 \<mapsto> [''Spanish'' \<mapsto> ''Comprar leche'']]"
        "\<lparr>todo_id = 1, title = ''Buy milk'', description = None, completed = False,
          priority = None, due_date = None\<rparr>" "''Spanish''"]
  by (simp add: sqlite_integer_def shown_translation_def)

text \<open>
  C8: without a credential (the environment variable unset or empty) there is no
  model; without a model, translating any text into any language gives no result,
  reports that the service is not available, and sends nothing to the service.
\<close>

theorem translate_unavailable:
  "fst (configure_gemini make_model None) = None \<and>
   fst (configure_gemini make_model (Some [])) = None \<and>
   translate_text_gemini None text target_language =
     (None, [St_error ''Translation service not available. API key might be missing or invalid.'']) \<and>
   api_calls (snd (translate_text_gemini None text target_language)) = []"
  by (simp add: configure_gemini_def translate_text_gemini_def)

text \<open>
  C9: the pending list and the done list together hold every item of the list returned
  by the store exactly once; the pending list holds items that are not completed, the
  done list items that are completed, so no item is in both; and each of the two lists
  keeps the items in the order of the list returned by the store.
\<close>

theorem todos_partitioned:
  "mset (incomplete_todos (get_all_todos_db db)) + mset (completed_todos (get_all_todos_db db)) =
     mset (get_all_todos_db db) \<and>
   (\<forall>todo \<in> set (incomplete_todos (get_all_todos_db db)). completed todo = False) \<and>
   (\<forall>todo \<in> set (completed_todos (get_all_todos_db db)). completed todo = True) \<and>
   set (incomplete_todos (get_all_todos_db db)) \<inter> set (completed_todos (get_all_todos_db db)) = {} \<and>
   subseq (incomplete_todos (get_all_todos_db db)) (get_all_todos_db db) \<and>
   subseq (completed_todos (get_all_todos_db db)) (get_all_todos_db db)"
  unfolding incomplete_todos_def completed_todos_def
  by (induction "get_all_todos_db db") auto

theorem todos_partitioned_witness:
  "incomplete_todos (get_all_todos_db
     [\<lparr>todo_id = 1, title = ''a'', description = None, completed = True,
       priority = None, due_date = None\<rparr>,
      \<lparr>todo_id = 2, title = ''b'', description = None, completed = False,
       priority = None, due_date = None\<rparr>,
      \<lparr>todo_id = 3, title = ''c'', description = None, completed = False,
       priority = None, due_date = None\<rparr>]) =
     [\<lparr>todo_id = 2, title = ''b'', description = None, completed = False,
       priority = None, due_date = None\<rparr>,
      \<lparr>todo_id = 3, title = ''c'', description = None, completed = False,
       priority = None, due_date = None\<rparr>] \<and>
   completed_todos (get_all_todos_db
     [\<lparr>todo_id = 1, title = ''a'', description = None, completed = True,
       priority = None, due_date = None\<rparr>,
      \<lparr>todo_id = 2, title = ''b'', description = None, completed = False,
       priority = None, due_date = None\<rparr>,
      \<lparr>todo_id = 3, title = ''c'', description = None, completed = False,
       priority = None, due_date = None\<rparr>]) =
     [\<lparr>todo_id = 1, title = ''a'', description = None, completed = True,
       priority = None, due_date = None\<rparr>]"
  using todos_partitioned [of
     "[\<lparr>todo_id = 1, title = ''a'', description = None, completed = True,
       priority = None, due_date = None\<rparr>,
      \<lparr>todo_id = 2, title = ''b'', description = None, completed = False,
       priority = None, due_date = None\<rparr>,
      \<lparr>todo_id = 3, title = ''c'', description = None, completed = False,
       priority = None, due_date = None\<rparr>]"]
  by (simp add: incomplete_todos_def completed_todos_def get_all_todos_db_def)

lemma create_accepts:
  "(case new_priority c of None \<Rightarrow> True | Some p \<Rightarrow> length p \<le> 50) \<Longrightarrow>
   \<exists>t. create_todo_db db c = Inr (db @ [t], t) \<and> title t = new_title c"
  by (auto simp: create_todo_db_def Let_def split: option.splits)

text \<open>
  C2, as amended: the add-item form rejects an empty title with a warning and never
  calls the store, so the number of items is unchanged; with a title that is not empty
  (and a priority label of at most 50 characters) the form adds one item.
\<close>

theorem empty_title_rejected_by_form:
  "add_todo_form db [] submitted_description chosen_priority submitted_due_date =
     (db, [St_warning ''Please enter a title for the To-Do item.'']) \<and>
   length (get_all_todos_db
     (fst (add_todo_form db [] submitted_description chosen_priority submitted_due_date))) =
     length (get_all_todos_db db) \<and>
   (submitted_title \<noteq> [] \<and> length chosen_priority \<le> 50 \<longrightarrow>
      length (get_all_todos_db
        (fst (add_todo_form db submitted_title submitted_description chosen_priority
           submitted_due_date))) = length (get_all_todos_db db) + 1)"
proof (intro conjI impI)
  show "add_todo_form db [] submitted_description chosen_priority submitted_due_date =
     (db, [St_warning ''Please enter a title for the To-Do item.''])"
    by (simp add: add_todo_form_def)
  then show "length (get_all_todos_db
     (fst (add_todo_form db [] submitted_description chosen_priority submitted_due_date))) =
     length (get_all_todos_db db)"
    by simp
next
  assume a: "submitted_title \<noteq> [] \<and> length chosen_priority \<le> 50"
  let ?c = "\<lparr>new_title = submitted_title, new_description = Some submitted_description,
      new_priority = (if chosen_priority \<noteq> ''None'' then Some chosen_priority else None),
      new_due_date = submitted_due_date\<rparr>"
  have "case new_priority ?c of None \<Rightarrow> True | Some p \<Rightarrow> length p \<le> 50"
    using a by simp
  from create_accepts [OF this, of db] obtain t where
    "create_todo_db db ?c = Inr (db @ [t], t)"
    by blast
  then show "length (get_all_todos_db
        (fst (add_todo_form db submitted_title submitted_description chosen_priority
           submitted_due_date))) = length (get_all_todos_db db) + 1"
    using a by (simp add: add_todo_form_def get_all_todos_db_def)
qed

theorem empty_title_rejected_by_form_witness:
  "add_todo_form [] [] [] ''None'' None =
     ([], [St_warning ''Please enter a title for the To-Do item.'']) \<and>
   length (get_all_todos_db (fst (add_todo_form [] ''Buy milk'' [] ''None'' None))) = 1"
  using empty_title_rejected_by_form [of "[]" "[]" "''None''" None "''Buy milk''"]
  by (simp add: get_all_todos_db_def)

text \<open>
  The claim C2 as it is written fails on the store's own create operation, which does
  not look at the title: called on the empty store with an empty title it returns an
  item and the store holds one row.
\<close>

theorem create_empty_title_counterexample:
  "create_todo_db []
     \<lparr>new_title = [], new_description = None, new_priority = None, new_due_date = None\<rparr> =
     Inr ([\<lparr>todo_id = 1, title = [], description = None, completed = False,
             priority = None, due_date = None\<rparr>],
          \<lparr>todo_id = 1, title = [], description = None, completed = False,
             priority = None, due_date = None\<rparr>) \<and>
   length (get_all_todos_db (fst (projr (create_todo_db []
     \<lparr>new_title = [], new_description = None, new_priority = None, new_due_date = None\<rparr>)))) = 1 \<and>
   length (get_all_todos_db []) = 0"
  by (simp add: create_todo_db_def next_rowid_def get_all_todos_db_def Let_def)

lemma translate_button_unchanged:
  "fst (translate_text_gemini gemini_model (text_to_translate todo) target_language) = None \<Longrightarrow>
   fst (translate_button gemini_model cache todo target_language) = cache"
  by (cases "translate_text_gemini gemini_model (text_to_translate todo) target_language")
    (simp add: translate_button_def)

lemma translate_button_changed:
  "fst (translate_button gemini_model cache todo target_language) \<noteq> cache \<Longrightarrow>
   \<exists>translated_text.
     fst (translate_text_gemini gemini_model (text_to_translate todo) target_language) =
       Some translated_text \<and>
     translated_text \<noteq> [] \<and>
     fst (translate_button gemini_model cache todo target_language) =
       cache(todo_id todo \<mapsto>
         (case cache (todo_id todo) of None \<Rightarrow> Map.empty | Some m \<Rightarrow> m)
           (target_language \<mapsto> translated_text))"
proof -
  assume changed: "fst (translate_button gemini_model cache todo target_language) \<noteq> cache"
  obtain r evs where
    tr: "translate_text_gemini gemini_model (text_to_translate todo) target_language = (r, evs)"
    by (cases "translate_text_gemini gemini_model (text_to_translate todo) target_language")
  show ?thesis
  proof (cases r)
    case None
    with tr changed show ?thesis
      by (simp add: translate_button_def)
  next
    case (Some translated_text)
    show ?thesis
    proof (cases "translated_text = []")
      case True
      with tr Some changed show ?thesis
        by (simp add: translate_button_def)
    next
      case False
      with tr Some show ?thesis
        by (simp add: translate_button_def)
    qed
  qed
qed

lemma shown_other_item:
  "i \<noteq> j \<Longrightarrow> shown_translation (cache(j \<mapsto> m)) i language = shown_translation cache i language"
  by (simp add: shown_translation_def)

lemma shown_other_language:
  "language \<noteq> target_language \<Longrightarrow>
   shown_translation
     (cache(j \<mapsto> (case cache j of None \<Rightarrow> Map.empty | Some m \<Rightarrow> m)(target_language \<mapsto> text)))
     j language = shown_translation cache j language"
  by (cases "cache j") (simp_all add: shown_translation_def)

lemma shown_written:
  "shown_translation (cache(j \<mapsto> m(target_language \<mapsto> text))) j target_language = Some text"
  by (simp add: shown_translation_def)

lemma translate_no_model:
  "fst (translate_text_gemini None text target_language) = None"
  by (simp add: translate_text_gemini_def)

lemma translate_call_fails:
  "generate_content (''Translate the following text into '' @ target_language @ '': '' @ text) = Inl e \<Longrightarrow>
   fst (translate_text_gemini (Some generate_content) text target_language) = None"
  by (simp add: translate_text_gemini_def Let_def)

text \<open>
  C10: when the translation gives no result, the translate button leaves the session
  cache as it was; that is so when there is no model and when the call to the service
  fails. A lookup in the cache changes through the translate button only for the id of
  the item and the target language, only when the translation returned a text that is
  not empty, and then the lookup gives that text.
\<close>

theorem failed_translation_keeps_cache:
  "(fst (translate_text_gemini gemini_model (text_to_translate todo) target_language) = None \<longrightarrow>
      fst (translate_button gemini_model cache todo target_language) = cache) \<and>
   (gemini_model = None \<longrightarrow>
      fst (translate_button gemini_model cache todo target_language) = cache) \<and>
   (\<forall>generate_content e.
      gemini_model = Some generate_content \<and>
      generate_content (''Translate the following text into '' @ target_language @ '': '' @
        text_to_translate todo) = Inl e \<longrightarrow>
      fst (translate_button gemini_model cache todo target_language) = cache) \<and>
   (\<forall>i language.
      shown_translation (fst (translate_button gemini_model cache todo target_language)) i language \<noteq>
        shown_translation cache i language \<longrightarrow>
      i = todo_id todo \<and> language = target_language \<and>
      (\<exists>translated_text.
         fst (translate_text_gemini gemini_model (text_to_translate todo) target_language) =
           Some translated_text \<and>
         translated_text \<noteq> [] \<and>
         shown_translation (fst (translate_button gemini_model cache todo target_language)) i language =
           Some translated_text))"
proof (intro conjI allI impI)
  assume "fst (translate_text_gemini gemini_model (text_to_translate todo) target_language) = None"
  then show "fst (translate_button gemini_model cache todo target_language) = cache"
    by (rule translate_button_unchanged)
next
  assume "gemini_model = None"
  then have "fst (translate_text_gemini gemini_model (text_to_translate todo) target_language) = None"
    by (simp only: translate_no_model)
  then show "fst (translate_button gemini_model cache todo target_language) = cache"
    by (rule translate_button_unchanged)
next
  fix generate_content e
  assume a: "gemini_model = Some generate_content \<and>
      generate_content (''Translate the following text into '' @ target_language @ '': '' @
        text_to_translate todo) = Inl e"
  then have "fst (translate_text_gemini (Some generate_content) (text_to_translate todo)
      target_language) = None"
    by (intro translate_call_fails) (rule conjunct2)
  with a have "fst (translate_text_gemini gemini_model (text_to_translate todo) target_language) = None"
    by (simp only:)
  then show "fst (translate_button gemini_model cache todo target_language) = cache"
    by (rule translate_button_unchanged)
next
  fix i language
  let ?cache' = "fst (translate_button gemini_model cache todo target_language)"
  assume diff: "shown_translation ?cache' i language \<noteq> shown_translation cache i language"
  then have "?cache' \<noteq> cache"
    by (rule contrapos_nn) (simp only:)
  from translate_button_changed [OF this] obtain translated_text where
    tr: "fst (translate_text_gemini gemini_model (text_to_translate todo) target_language) =
      Some translated_text" and
    ne: "translated_text \<noteq> []" and
    new: "?cache' = cache(todo_id todo \<mapsto>
         (case cache (todo_id todo) of None \<Rightarrow> Map.empty | Some m \<Rightarrow> m)
           (target_language \<mapsto> translated_text))"
    by blast
  show i: "i = todo_id todo"
  proof (rule ccontr)
    assume "i \<noteq> todo_id todo"
    then have "shown_translation ?cache' i language = shown_translation cache i language"
      unfolding new by (rule shown_other_item)
    with diff show False by (rule notE)
  qed
  show l: "language = target_language"
  proof (rule ccontr)
    assume "language \<noteq> target_language"
    then have "shown_translation ?cache' (todo_id todo) language =
        shown_translation cache (todo_id todo) language"
      unfolding new by (rule shown_other_language)
    with diff i show False by simp
  qed
  have w: "shown_translation ?cache' i language = Some translated_text"
    unfolding new i l by (rule shown_written)
  from tr ne w show "\<exists>translated_text.
         fst (translate_text_gemini gemini_model (text_to_translate todo) target_language) =
           Some translated_text \<and>
         translated_text \<noteq> [] \<and>
         shown_translation ?cache' i language = Some translated_text"
    by blast
qed

theorem failed_translation_keeps_cache_witness:
  "fst (translate_text_gemini None
     (text_to_translate \<lparr>todo_id = 1, title = ''Buy milk'', description = None, completed = False,
        priority = None, due_date = None\<rparr>) ''Spanish'') = None \<and>
   shown_translation (fst (translate_button None Map.empty
     \<lparr>todo_id = 1, title = ''Buy milk'', description = None, completed = False,
        priority = None, due_date = None\<rparr> ''Spanish'')) 1 ''Spanish'' = None \<and>
   shown_translation (fst (translate_button (Some (\<lambda>prompt. Inl ''quota exceeded'')) Map.empty
     \<lparr>todo_id = 1, title = ''Buy milk'', description = None, completed = False,
        priority = None, due_date = None\<rparr> ''Spanish'')) 1 ''Spanish'' = None \<and>
   shown_translation (fst (translate_button (Some (\<lambda>prompt. Inr ''Comprar leche'')) Map.empty
     \<lparr>todo_id = 1, title = ''Buy milk'', description = None, completed = False,
        priority = None, due_date = None\<rparr> ''Spanish'')) 1 ''Spanish'' = Some ''Comprar leche''"
  using failed_translation_keeps_cache [of None
     "\<lparr>todo_id = 1, title = ''Buy milk'', description = None, completed = False,
        priority = None, due_date = None\<rparr>" "''Spanish''" Map.empty]
  by (simp add: translate_text_gemini_def translate_button_def shown_translation_def)

end
